theory Spec2Isabelle
  imports Main
begin

section \<open>The webpack root configuration (webpack.config.js)\<close>

text \<open>
  The module exports one function, \<open>(env = DEFAULT_ENV) => { return {...} }\<close>, that builds
  the configuration object handed to webpack. It reads two inputs: the process
  environment variable \<open>NODE_ENV\<close> (captured once when the module is loaded) and the
  \<open>env\<close> argument that webpack passes in. Everything else is a literal.
\<close>

subsection \<open>JavaScript values\<close>

text \<open>
  The \<open>env\<close> argument can be any JavaScript value, and the option objects given to
  loaders and plugins are object literals. Plain data is enough for both: a finite number
  is modelled by an integer (a fraction or an infinity is truthy like any non-zero
  integer), \<open>NaN\<close> is a value of its own, an object is the list of its own properties
  (the first binding of a key is the effective one), a regular expression literal is its
  source text, and \<open>JFunction\<close> is a function imported from another package, named by
  that package (the lint formatter is one). Objects with accessor properties or proxies,
  whose property reads run user code, are outside the model.
\<close>

datatype jsval =
    JUndefined
  | JNull
  | JBool bool
  | JNum int
  | JNaN
  | JStr string
  | JRegExp string
  | JArr "jsval list"
  | JObj "(string \<times> jsval) list"
  | JFunction string

text \<open>The only exception the function can raise: reading a property of \<open>null\<close>.\<close>

datatype error = TypeError

text \<open>
  ECMAScript \<open>ToBoolean\<close>, which decides the condition of \<open>c ? a : b\<close>: \<open>undefined\<close>,
  \<open>null\<close>, \<open>false\<close>, zero, \<open>NaN\<close> and the empty string are falsy, everything else
  is truthy.
\<close>

fun to_boolean :: "jsval \<Rightarrow> bool" where
  "to_boolean JUndefined = False"
| "to_boolean JNull = False"
| "to_boolean (JBool b) = b"
| "to_boolean (JNum n) = (n \<noteq> 0)"
| "to_boolean JNaN = False"
| "to_boolean (JStr s) = (s \<noteq> [])"
| "to_boolean (JRegExp r) = True"
| "to_boolean (JArr xs) = True"
| "to_boolean (JObj ps) = True"
| "to_boolean (JFunction f) = True"

text \<open>
  The member expression \<open>env.report\<close> (line 237). On \<open>undefined\<close> and \<open>null\<close> it throws
  a TypeError. On an object it yields the property's value, \<open>undefined\<close> when there is
  none. A boolean, number or string is wrapped first, and neither the wrappers nor arrays,
  regular expressions and functions have a property called \<open>report\<close>.
\<close>

fun get_report :: "jsval \<Rightarrow> error + jsval" where
  "get_report JUndefined = Inl TypeError"
| "get_report JNull = Inl TypeError"
| "get_report (JObj ps) =
     Inr (case map_of ps ''report'' of None \<Rightarrow> JUndefined | Some v \<Rightarrow> v)"
| "get_report v = Inr JUndefined"

subsection \<open>Module constants (lines 19 to 54)\<close>

definition PRODUCTION :: string where
  "PRODUCTION = ''production''"

definition DEVELOPMENT :: string where
  "DEVELOPMENT = ''development''"

definition DEFAULT_EXCLUDE_RX :: jsval where
  "DEFAULT_EXCLUDE_RX = JRegExp ''node_modules''"

definition WHATWG_FETCH :: string where
  "WHATWG_FETCH = ''imports-loader?this=>global!exports-loader?global.fetch!whatwg-fetch''"

definition DEFAULT_ENV :: jsval where
  "DEFAULT_ENV = JObj [(''report'', JBool False)]"

subsection \<open>The shape of the configuration object\<close>

text \<open>
  Calls into Node's \<open>path\<close> module are kept as they are written: both take \<open>__dirname\<close>
  as first argument, and the second argument is recorded. The fields \<open>context\<close>,
  \<open>output\<close> and \<open>alias\<close> of the object are called \<open>cfg_context\<close>, \<open>cfg_output\<close>
  and \<open>resolve_alias\<close> here, their own names being reserved words of Isabelle.
\<close>

datatype path_expr =
    path_resolve_dirname string
  | path_join_dirname string

record rule =
  enforce :: "string option"
  exclude :: jsval
  loader :: string
  options :: jsval
  test :: jsval

record module_spec =
  rules :: "rule list"

record output_spec =
  filename :: string
  library :: string
  libraryTarget :: string
  path :: path_expr

record resolve_spec =
  resolve_alias :: "(string \<times> path_expr) list"
  extensions :: "string list"

text \<open>A plugin instance is the constructor that was called and the argument it was given.\<close>

datatype plugin =
    is_EnvironmentPlugin: EnvironmentPlugin jsval
  | is_ProvidePlugin: ProvidePlugin jsval
  | is_LodashModuleReplacementPlugin: LodashModuleReplacementPlugin jsval
  | is_UglifyJsPlugin: UglifyJsPlugin jsval
  | is_BundleAnalyzerPlugin: BundleAnalyzerPlugin

record config =
  cfg_context :: path_expr
  devtool :: string
  entry :: "path_expr list"
  module :: module_spec
  node :: jsval
  cfg_output :: output_spec
  plugins :: "plugin list"
  resolve :: resolve_spec

subsection \<open>The exported function (lines 62 to 258)\<close>

text \<open>
  The default parameter \<open>env = DEFAULT_ENV\<close>: the default is taken when the argument is
  missing or \<open>undefined\<close>, and for no other value (not for \<open>null\<close>).
\<close>

definition default_param :: "jsval \<Rightarrow> jsval" where
  "default_param env = (if env = JUndefined then DEFAULT_ENV else env)"

text \<open>
  The test \<open>NODE_ENV === PRODUCTION\<close>, written twice (lines 84 and 223). \<open>NODE_ENV\<close> is
  \<open>process.env.NODE_ENV\<close>: a string, or \<open>None\<close> when the variable is not set
  (\<open>undefined\<close>). Strict equality with a string holds for that very string only.
\<close>

definition is_production :: "string option \<Rightarrow> bool" where
  "is_production NODE_ENV = (NODE_ENV = Some PRODUCTION)"

text \<open>The two rules of \<open>module.rules\<close> (lines 110 to 150).\<close>

definition eslint_rule :: rule where
  "eslint_rule =
     \<lparr> enforce = Some ''pre'',
       exclude = DEFAULT_EXCLUDE_RX,
       loader = ''eslint-loader'',
       options = JObj
         [(''emitError'', JBool True),
          (''emitWarning'', JBool False),
          (''failOnError'', JBool True),
          (''failOnWarning'', JBool False),
          (''formatter'', JFunction ''eslint-friendly-formatter''),
          (''quiet'', JBool True)],
       test = JRegExp (CHR 0x5C # ''.(js|json)$'') \<rparr>"

definition babel_rule :: rule where
  "babel_rule =
     \<lparr> enforce = None,
       exclude = DEFAULT_EXCLUDE_RX,
       loader = ''babel-loader'',
       options = JObj
         [(''plugins'', JArr [JStr ''lodash'']),
          (''presets'',
             JArr [JArr [JStr ''env'',
                         JObj [(''modules'', JBool False),
                               (''targets'', JObj [(''node'', JNum 8)])]]])],
       test = JRegExp (CHR 0x5C # ''.js$'') \<rparr>"

text \<open>The arguments of the plugin constructors (lines 193 to 229).\<close>

definition environment_plugin_arg :: jsval where
  "environment_plugin_arg =
     JObj [(''DEBUG'', JBool False), (''NODE_ENV'', JStr DEVELOPMENT)]"

definition provide_plugin_arg :: jsval where
  "provide_plugin_arg =
     JObj [(''fetch'', JStr WHATWG_FETCH), (''window.fetch'', JStr WHATWG_FETCH)]"

definition lodash_plugin_arg :: jsval where
  "lodash_plugin_arg = JObj [(''paths'', JBool True)]"

definition uglify_plugin_arg :: jsval where
  "uglify_plugin_arg =
     JObj [(''parallel'', JBool True),
           (''sourceMap'', JBool True),
           (''uglifyOptions'', JObj [(''ecma'', JNum 8)])]"

text \<open>
  The function itself. The object literal is evaluated top to bottom; the only
  expression in it that can throw is \<open>env.report\<close>, and then no object is returned.
\<close>

definition module_exports :: "string option \<Rightarrow> jsval \<Rightarrow> error + config" where
  "module_exports NODE_ENV env_arg =
     (let env = default_param env_arg in
      case get_report env of
        Inl e \<Rightarrow> Inl e
      | Inr report \<Rightarrow>
          Inr \<lparr> cfg_context = path_resolve_dirname ''.'',
                devtool = (if is_production NODE_ENV then ''source-map''
                           else ''eval-source-map''),
                entry = [path_join_dirname ''src/index.js''],
                module = \<lparr> rules = [eslint_rule, babel_rule] \<rparr>,
                node = JObj
                  [(''child_process'', JStr ''empty''),
                   (''dgram'', JStr ''empty''),
                   (''fs'', JStr ''empty''),
                   (''net'', JStr ''empty''),
                   (''setImmediate'', JBool False),
                   (''tls'', JStr ''empty'')],
                cfg_output =
                  \<lparr> filename = ''index.js'',
                    library = ''returnExports'',
                    libraryTarget = ''umd'',
                    path = path_resolve_dirname ''dist'' \<rparr>,
                plugins =
                  [EnvironmentPlugin environment_plugin_arg,
                   ProvidePlugin provide_plugin_arg,
                   LodashModuleReplacementPlugin lodash_plugin_arg]
                  @ (if is_production NODE_ENV
                     then [UglifyJsPlugin uglify_plugin_arg] else [])
                  @ (if to_boolean report then [BundleAnalyzerPlugin] else []),
                resolve =
                  \<lparr> resolve_alias =
                      [(''RootDir'', path_resolve_dirname ''.''),
                       (''src'', path_resolve_dirname ''src'')],
                    extensions = [''.js'', ''.json''] \<rparr> \<rparr>)"

text \<open>
  Reading an own data property of an object literal, as the loaders and plugins do with the
  option objects they are given. Only applied to such literals below.
\<close>

fun own_property :: "jsval \<Rightarrow> string \<Rightarrow> jsval option" where
  "own_property (JObj ps) k = map_of ps k"
| "own_property v k = None"

text \<open>
  The normalised mode string in the words of the specification: the production string in
  production mode, the development string otherwise. The source has this expression only
  in the disabled line 93 (\<open>// mode: NODE_ENV === PRODUCTION ? PRODUCTION : DEVELOPMENT\<close>).
\<close>

definition spec_mode_string :: "string option \<Rightarrow> string" where
  "spec_mode_string NODE_ENV = (if is_production NODE_ENV then PRODUCTION else DEVELOPMENT)"

section \<open>Properties\<close>

subsection \<open>What the function returns\<close>

lemma get_report_default_param:
  "env \<noteq> JNull \<Longrightarrow> \<exists>r. get_report (default_param env) = Inr r"
  by (cases env) (simp_all add: default_param_def DEFAULT_ENV_def)

lemma module_exports_Inr:
  assumes "get_report (default_param env) = Inr r"
  shows "\<exists>cfg. module_exports NODE_ENV env = Inr cfg
           \<and> devtool cfg = (if is_production NODE_ENV then ''source-map'' else ''eval-source-map'')
           \<and> rules (module cfg) = [eslint_rule, babel_rule]
           \<and> plugins cfg =
               [EnvironmentPlugin environment_plugin_arg,
                ProvidePlugin provide_plugin_arg,
                LodashModuleReplacementPlugin lodash_plugin_arg]
               @ (if is_production NODE_ENV then [UglifyJsPlugin uglify_plugin_arg] else [])
               @ (if to_boolean r then [BundleAnalyzerPlugin] else [])"
  using assms by (simp add: module_exports_def)

lemma module_exports_non_null:
  assumes "env \<noteq> JNull"
  shows "\<exists>cfg r. module_exports NODE_ENV env = Inr cfg
           \<and> get_report (default_param env) = Inr r
           \<and> devtool cfg = (if is_production NODE_ENV then ''source-map'' else ''eval-source-map'')
           \<and> rules (module cfg) = [eslint_rule, babel_rule]
           \<and> plugins cfg =
               [EnvironmentPlugin environment_plugin_arg,
                ProvidePlugin provide_plugin_arg,
                LodashModuleReplacementPlugin lodash_plugin_arg]
               @ (if is_production NODE_ENV then [UglifyJsPlugin uglify_plugin_arg] else [])
               @ (if to_boolean r then [BundleAnalyzerPlugin] else [])"
proof -
  from assms obtain r where r: "get_report (default_param env) = Inr r"
    using get_report_default_param by blast
  from module_exports_Inr [OF r, of NODE_ENV] r show ?thesis
    by blast
qed

lemma module_exports_null: "module_exports NODE_ENV JNull = Inl TypeError"
  by (simp add: module_exports_def default_param_def)

lemma module_exports_report:
  "module_exports NODE_ENV env = Inr cfg \<Longrightarrow> \<exists>r. get_report (default_param env) = Inr r"
  by (cases "get_report (default_param env)") (simp_all add: module_exports_def)

lemma is_production_iff: "is_production NODE_ENV \<longleftrightarrow> NODE_ENV = Some ''production''"
  by (simp add: is_production_def PRODUCTION_def)

subsection \<open>Mode resolution\<close>

text \<open>
  C1. The mode is production exactly when the mode signal \<open>NODE_ENV\<close> is the string
  \<open>production\<close>; when the signal is absent or is any other string the mode is
  development. The test never throws: whatever the signal, the function returns a
  configuration (for every \<open>env\<close> it accepts), and that configuration shows the mode in its
  \<open>devtool\<close> and in the presence of the minifier.
\<close>

theorem mode_resolution:
  "(is_production NODE_ENV \<longleftrightarrow> NODE_ENV = Some ''production'')
   \<and> (NODE_ENV = None \<longrightarrow> \<not> is_production NODE_ENV)
   \<and> (\<forall>s. NODE_ENV = Some s \<and> s \<noteq> ''production'' \<longrightarrow> \<not> is_production NODE_ENV)
   \<and> (env \<noteq> JNull \<longrightarrow>
        (\<exists>cfg. module_exports NODE_ENV env = Inr cfg
           \<and> (devtool cfg = ''source-map'' \<longleftrightarrow> NODE_ENV = Some ''production'')
           \<and> (devtool cfg = ''eval-source-map'' \<longleftrightarrow> NODE_ENV \<noteq> Some ''production'')
           \<and> (list_ex is_UglifyJsPlugin (plugins cfg) \<longleftrightarrow> NODE_ENV = Some ''production'')))"
proof -
  have a: "is_production NODE_ENV \<longleftrightarrow> NODE_ENV = Some ''production''"
    by (rule is_production_iff)
  have b: "\<exists>cfg. module_exports NODE_ENV env = Inr cfg
           \<and> (devtool cfg = ''source-map'' \<longleftrightarrow> NODE_ENV = Some ''production'')
           \<and> (devtool cfg = ''eval-source-map'' \<longleftrightarrow> NODE_ENV \<noteq> Some ''production'')
           \<and> (list_ex is_UglifyJsPlugin (plugins cfg) \<longleftrightarrow> NODE_ENV = Some ''production'')"
    if "env \<noteq> JNull"
  proof -
    from module_exports_non_null [OF that, of NODE_ENV] obtain cfg r where
      c: "module_exports NODE_ENV env = Inr cfg"
      and d: "devtool cfg = (if is_production NODE_ENV then ''source-map'' else ''eval-source-map'')"
      and p: "plugins cfg =
               [EnvironmentPlugin environment_plugin_arg,
                ProvidePlugin provide_plugin_arg,
                LodashModuleReplacementPlugin lodash_plugin_arg]
               @ (if is_production NODE_ENV then [UglifyJsPlugin uglify_plugin_arg] else [])
               @ (if to_boolean r then [BundleAnalyzerPlugin] else [])"
      by blast
    from d a have d1: "devtool cfg = ''source-map'' \<longleftrightarrow> NODE_ENV = Some ''production''"
      by simp
    from d a have d2: "devtool cfg = ''eval-source-map'' \<longleftrightarrow> NODE_ENV \<noteq> Some ''production''"
      by simp
    from p a have u: "list_ex is_UglifyJsPlugin (plugins cfg) \<longleftrightarrow> NODE_ENV = Some ''production''"
      by simp
    from c d1 d2 u show ?thesis by blast
  qed
  from a b show ?thesis by auto
qed

theorem mode_resolution_witness:
  "JUndefined \<noteq> JNull
   \<and> \<not> is_production (Some ''staging'')
   \<and> \<not> is_production None
   \<and> (\<exists>cfg. module_exports (Some ''staging'') JUndefined = Inr cfg
         \<and> devtool cfg = ''eval-source-map''
         \<and> \<not> list_ex is_UglifyJsPlugin (plugins cfg))
   \<and> (\<exists>cfg. module_exports (Some ''production'') JUndefined = Inr cfg
         \<and> devtool cfg = ''source-map''
         \<and> list_ex is_UglifyJsPlugin (plugins cfg))"
  using mode_resolution [of "Some ''staging''" JUndefined]
    mode_resolution [of None JUndefined]
    mode_resolution [of "Some ''production''" JUndefined]
  by auto

subsection \<open>The plugin list\<close>

text \<open>
  C2, as the code has it. In the returned plugin list the minifier (\<open>UglifyJsPlugin\<close>)
  is present exactly in production mode, that is, when \<open>NODE_ENV\<close> is the string
  \<open>production\<close>. The bundle analyser is present exactly when the input is an object
  whose \<open>report\<close> property is truthy. So for an input whose \<open>report\<close> is a boolean
  the analyser is present exactly when that boolean is \<open>true\<close>, and it is absent when
  \<open>env\<close> is absent or has no such property; but a non-empty string or a non-zero number
  as \<open>report\<close> includes it too. The two tests are independent: each of the four
  combinations of present and absent is produced by an input with a boolean \<open>report\<close>.
\<close>

theorem conditional_plugins:
  "(env \<noteq> JNull \<longrightarrow>
      (\<exists>cfg. module_exports NODE_ENV env = Inr cfg
         \<and> (is_production NODE_ENV \<longleftrightarrow> NODE_ENV = Some ''production'')
         \<and> (list_ex is_UglifyJsPlugin (plugins cfg) \<longleftrightarrow> is_production NODE_ENV)
         \<and> (list_ex is_BundleAnalyzerPlugin (plugins cfg) \<longleftrightarrow>
               (\<exists>ps v. env = JObj ps \<and> map_of ps ''report'' = Some v \<and> to_boolean v))
         \<and> (\<forall>ps b. env = JObj ps \<and> map_of ps ''report'' = Some (JBool b) \<longrightarrow>
               (list_ex is_BundleAnalyzerPlugin (plugins cfg) \<longleftrightarrow> b))
         \<and> (\<forall>ps s. env = JObj ps \<and> map_of ps ''report'' = Some (JStr s) \<longrightarrow>
               (list_ex is_BundleAnalyzerPlugin (plugins cfg) \<longleftrightarrow> s \<noteq> []))
         \<and> (\<forall>ps n. env = JObj ps \<and> map_of ps ''report'' = Some (JNum n) \<longrightarrow>
               (list_ex is_BundleAnalyzerPlugin (plugins cfg) \<longleftrightarrow> n \<noteq> 0))
         \<and> (env = JUndefined \<longrightarrow> \<not> list_ex is_BundleAnalyzerPlugin (plugins cfg))
         \<and> (\<forall>ps. env = JObj ps \<and> map_of ps ''report'' = None \<longrightarrow>
               \<not> list_ex is_BundleAnalyzerPlugin (plugins cfg))))
   \<and> (\<forall>m a. \<exists>cfg.
         module_exports (if m then Some ''production'' else None) (JObj [(''report'', JBool a)])
           = Inr cfg
         \<and> list_ex is_UglifyJsPlugin (plugins cfg) = m
         \<and> list_ex is_BundleAnalyzerPlugin (plugins cfg) = a)"
proof -
  have membership: "\<exists>cfg. module_exports s e = Inr cfg
         \<and> (is_production s \<longleftrightarrow> s = Some ''production'')
         \<and> (list_ex is_UglifyJsPlugin (plugins cfg) \<longleftrightarrow> is_production s)
         \<and> (list_ex is_BundleAnalyzerPlugin (plugins cfg) \<longleftrightarrow>
               (\<exists>ps v. e = JObj ps \<and> map_of ps ''report'' = Some v \<and> to_boolean v))
         \<and> (\<forall>ps b. e = JObj ps \<and> map_of ps ''report'' = Some (JBool b) \<longrightarrow>
               (list_ex is_BundleAnalyzerPlugin (plugins cfg) \<longleftrightarrow> b))
         \<and> (\<forall>ps x. e = JObj ps \<and> map_of ps ''report'' = Some (JStr x) \<longrightarrow>
               (list_ex is_BundleAnalyzerPlugin (plugins cfg) \<longleftrightarrow> x \<noteq> []))
         \<and> (\<forall>ps n. e = JObj ps \<and> map_of ps ''report'' = Some (JNum n) \<longrightarrow>
               (list_ex is_BundleAnalyzerPlugin (plugins cfg) \<longleftrightarrow> n \<noteq> 0))
         \<and> (e = JUndefined \<longrightarrow> \<not> list_ex is_BundleAnalyzerPlugin (plugins cfg))
         \<and> (\<forall>ps. e = JObj ps \<and> map_of ps ''report'' = None \<longrightarrow>
               \<not> list_ex is_BundleAnalyzerPlugin (plugins cfg))"
    if "e \<noteq> JNull" for s e
  proof -
    from module_exports_non_null [OF that, of s] obtain cfg r where
      c: "module_exports s e = Inr cfg"
      and g: "get_report (default_param e) = Inr r"
      and p: "plugins cfg =
               [EnvironmentPlugin environment_plugin_arg,
                ProvidePlugin provide_plugin_arg,
                LodashModuleReplacementPlugin lodash_plugin_arg]
               @ (if is_production s then [UglifyJsPlugin uglify_plugin_arg] else [])
               @ (if to_boolean r then [BundleAnalyzerPlugin] else [])"
      by blast
    have m: "is_production s \<longleftrightarrow> s = Some ''production''"
      by (rule is_production_iff)
    from p have u: "list_ex is_UglifyJsPlugin (plugins cfg) \<longleftrightarrow> is_production s"
      by simp
    from p have b: "list_ex is_BundleAnalyzerPlugin (plugins cfg) \<longleftrightarrow> to_boolean r"
      by simp
    have rv: "to_boolean r \<longleftrightarrow>
        (\<exists>ps v. e = JObj ps \<and> map_of ps ''report'' = Some v \<and> to_boolean v)"
    proof (cases e)
      case JUndefined
      with g show ?thesis by (auto simp: default_param_def DEFAULT_ENV_def)
    next
      case JNull
      with that show ?thesis by simp
    next
      case (JObj ps)
      with g show ?thesis by (auto simp: default_param_def split: option.splits)
    qed (use g in \<open>auto simp: default_param_def\<close>)
    from b rv have a: "list_ex is_BundleAnalyzerPlugin (plugins cfg) \<longleftrightarrow>
               (\<exists>ps v. e = JObj ps \<and> map_of ps ''report'' = Some v \<and> to_boolean v)"
      by simp
    have i1: "\<forall>ps x. e = JObj ps \<and> map_of ps ''report'' = Some (JBool x) \<longrightarrow>
               (list_ex is_BundleAnalyzerPlugin (plugins cfg) \<longleftrightarrow> x)"
      unfolding a by auto
    have i2: "\<forall>ps x. e = JObj ps \<and> map_of ps ''report'' = Some (JStr x) \<longrightarrow>
               (list_ex is_BundleAnalyzerPlugin (plugins cfg) \<longleftrightarrow> x \<noteq> [])"
      unfolding a by auto
    have i3: "\<forall>ps n. e = JObj ps \<and> map_of ps ''report'' = Some (JNum n) \<longrightarrow>
               (list_ex is_BundleAnalyzerPlugin (plugins cfg) \<longleftrightarrow> n \<noteq> 0)"
      unfolding a by auto
    have i4: "e = JUndefined \<longrightarrow> \<not> list_ex is_BundleAnalyzerPlugin (plugins cfg)"
      unfolding a by auto
    have i5: "\<forall>ps. e = JObj ps \<and> map_of ps ''report'' = None \<longrightarrow>
               \<not> list_ex is_BundleAnalyzerPlugin (plugins cfg)"
      unfolding a by auto
    from c m u a i1 i2 i3 i4 i5
    have all: "module_exports s e = Inr cfg
         \<and> (is_production s \<longleftrightarrow> s = Some ''production'')
         \<and> (list_ex is_UglifyJsPlugin (plugins cfg) \<longleftrightarrow> is_production s)
         \<and> (list_ex is_BundleAnalyzerPlugin (plugins cfg) \<longleftrightarrow>
               (\<exists>ps v. e = JObj ps \<and> map_of ps ''report'' = Some v \<and> to_boolean v))
         \<and> (\<forall>ps b. e = JObj ps \<and> map_of ps ''report'' = Some (JBool b) \<longrightarrow>
               (list_ex is_BundleAnalyzerPlugin (plugins cfg) \<longleftrightarrow> b))
         \<and> (\<forall>ps x. e = JObj ps \<and> map_of ps ''report'' = Some (JStr x) \<longrightarrow>
               (list_ex is_BundleAnalyzerPlugin (plugins cfg) \<longleftrightarrow> x \<noteq> []))
         \<and> (\<forall>ps n. e = JObj ps \<and> map_of ps ''report'' = Some (JNum n) \<longrightarrow>
               (list_ex is_BundleAnalyzerPlugin (plugins cfg) \<longleftrightarrow> n \<noteq> 0))
         \<and> (e = JUndefined \<longrightarrow> \<not> list_ex is_BundleAnalyzerPlugin (plugins cfg))
         \<and> (\<forall>ps. e = JObj ps \<and> map_of ps ''report'' = None \<longrightarrow>
               \<not> list_ex is_BundleAnalyzerPlugin (plugins cfg))"
      by (intro conjI)
    show ?thesis
      by (rule exI) (rule all)
  qed
  have reach: "\<exists>cfg.
         module_exports (if m then Some ''production'' else None) (JObj [(''report'', JBool a)])
           = Inr cfg
         \<and> list_ex is_UglifyJsPlugin (plugins cfg) = m
         \<and> list_ex is_BundleAnalyzerPlugin (plugins cfg) = a" for m a
  proof -
    let ?s = "if m then Some ''production'' else None"
    let ?e = "JObj [(''report'', JBool a)]"
    have ne: "?e \<noteq> JNull" by simp
    from membership [OF ne, of ?s] obtain cfg where
      h: "module_exports ?s ?e = Inr cfg
         \<and> (is_production ?s \<longleftrightarrow> ?s = Some ''production'')
         \<and> (list_ex is_UglifyJsPlugin (plugins cfg) \<longleftrightarrow> is_production ?s)
         \<and> (list_ex is_BundleAnalyzerPlugin (plugins cfg) \<longleftrightarrow>
               (\<exists>ps v. ?e = JObj ps \<and> map_of ps ''report'' = Some v \<and> to_boolean v))"
      by (elim exE conjE) (rule that, intro conjI)
    from h have c: "module_exports ?s ?e = Inr cfg" by (elim conjE)
    from h have u: "list_ex is_UglifyJsPlugin (plugins cfg) = m"
      by (cases m) simp_all
    from h have "list_ex is_BundleAnalyzerPlugin (plugins cfg) \<longleftrightarrow>
               (\<exists>ps v. ?e = JObj ps \<and> map_of ps ''report'' = Some v \<and> to_boolean v)"
      by (elim conjE)
    then have "list_ex is_BundleAnalyzerPlugin (plugins cfg) = a"
      by simp
    with c u have all: "module_exports ?s ?e = Inr cfg
         \<and> list_ex is_UglifyJsPlugin (plugins cfg) = m
         \<and> list_ex is_BundleAnalyzerPlugin (plugins cfg) = a"
      by (intro conjI)
    show ?thesis by (rule exI) (rule all)
  qed
  show ?thesis
    by (intro conjI impI allI membership reach)
qed

theorem conditional_plugins_witness:
  "JObj [(''report'', JBool True)] \<noteq> JNull
   \<and> JObj [(''report'', JBool False)] \<noteq> JNull
   \<and> (\<exists>cfg. module_exports (Some ''production'') (JObj [(''report'', JBool True)]) = Inr cfg
         \<and> list_ex is_UglifyJsPlugin (plugins cfg)
         \<and> list_ex is_BundleAnalyzerPlugin (plugins cfg))
   \<and> (\<exists>cfg. module_exports None (JObj [(''report'', JBool False)]) = Inr cfg
         \<and> \<not> list_ex is_UglifyJsPlugin (plugins cfg)
         \<and> \<not> list_ex is_BundleAnalyzerPlugin (plugins cfg))"
proof -
  let ?e1 = "JObj [(''report'', JBool True)]"
  let ?e2 = "JObj [(''report'', JBool False)]"
  have n1: "?e1 \<noteq> JNull" by simp
  have n2: "?e2 \<noteq> JNull" by simp
  from conditional_plugins [of ?e1 "Some ''production''", THEN conjunct1, THEN mp, OF n1]
  obtain cfg1 where
    c1: "module_exports (Some ''production'') ?e1 = Inr cfg1"
    and m1: "is_production (Some ''production'') \<longleftrightarrow> Some ''production'' = Some ''production''"
    and u1: "list_ex is_UglifyJsPlugin (plugins cfg1) \<longleftrightarrow> is_production (Some ''production'')"
    and a1: "list_ex is_BundleAnalyzerPlugin (plugins cfg1) \<longleftrightarrow>
               (\<exists>ps v. ?e1 = JObj ps \<and> map_of ps ''report'' = Some v \<and> to_boolean v)"
    by (elim exE conjE) (rule that; assumption)
  from m1 u1 have v1: "list_ex is_UglifyJsPlugin (plugins cfg1)" by simp
  from a1 have w1: "list_ex is_BundleAnalyzerPlugin (plugins cfg1)" by simp
  from c1 v1 w1 have "module_exports (Some ''production'') ?e1 = Inr cfg1
         \<and> list_ex is_UglifyJsPlugin (plugins cfg1)
         \<and> list_ex is_BundleAnalyzerPlugin (plugins cfg1)"
    by (intro conjI)
  then have e1: "\<exists>cfg. module_exports (Some ''production'') ?e1 = Inr cfg
         \<and> list_ex is_UglifyJsPlugin (plugins cfg)
         \<and> list_ex is_BundleAnalyzerPlugin (plugins cfg)"
    by (rule exI)
  from conditional_plugins [of ?e2 None, THEN conjunct1, THEN mp, OF n2]
  obtain cfg2 where
    c2: "module_exports None ?e2 = Inr cfg2"
    and m2: "is_production None \<longleftrightarrow> None = Some ''production''"
    and u2: "list_ex is_UglifyJsPlugin (plugins cfg2) \<longleftrightarrow> is_production None"
    and a2: "list_ex is_BundleAnalyzerPlugin (plugins cfg2) \<longleftrightarrow>
               (\<exists>ps v. ?e2 = JObj ps \<and> map_of ps ''report'' = Some v \<and> to_boolean v)"
    by (elim exE conjE) (rule that; assumption)
  from m2 u2 have v2: "\<not> list_ex is_UglifyJsPlugin (plugins cfg2)" by simp
  from a2 have w2: "\<not> list_ex is_BundleAnalyzerPlugin (plugins cfg2)" by simp
  from c2 v2 w2 have "module_exports None ?e2 = Inr cfg2
         \<and> \<not> list_ex is_UglifyJsPlugin (plugins cfg2)
         \<and> \<not> list_ex is_BundleAnalyzerPlugin (plugins cfg2)"
    by (intro conjI)
  then have e2: "\<exists>cfg. module_exports None ?e2 = Inr cfg
         \<and> \<not> list_ex is_UglifyJsPlugin (plugins cfg)
         \<and> \<not> list_ex is_BundleAnalyzerPlugin (plugins cfg)"
    by (rule exI)
  from n1 n2 e1 e2 show ?thesis by (intro conjI)
qed

text \<open>
  C2 as stated fails in its analyser half: a report flag that is the string \<open>false\<close>
  is not \<open>true\<close>, and the analyser is in the list all the same.
\<close>

theorem report_string_false_counterexample:
  "JStr ''false'' \<noteq> JBool True
   \<and> map_sum id plugins (module_exports None (JObj [(''report'', JStr ''false'')])) =
       Inr [EnvironmentPlugin environment_plugin_arg,
            ProvidePlugin provide_plugin_arg,
            LodashModuleReplacementPlugin lodash_plugin_arg,
            BundleAnalyzerPlugin]"
  by (simp add: module_exports_def default_param_def is_production_def)

text \<open>
  C3. The plugin list always starts with the three unconditional plugins, in the order
  environment-variable injection, fetch provisioning, lodash size reduction. The
  conditional plugins come after them (at index 3 or later), the minifier first and the
  analyser second; so wherever both occur, the minifier's index is the smaller one.
\<close>

theorem plugin_order:
  assumes "env \<noteq> JNull"
  shows "\<exists>cfg r. module_exports NODE_ENV env = Inr cfg
           \<and> get_report (default_param env) = Inr r
           \<and> take 3 (plugins cfg) =
                [EnvironmentPlugin environment_plugin_arg,
                 ProvidePlugin provide_plugin_arg,
                 LodashModuleReplacementPlugin lodash_plugin_arg]
           \<and> drop 3 (plugins cfg) =
                (if is_production NODE_ENV then [UglifyJsPlugin uglify_plugin_arg] else [])
                @ (if to_boolean r then [BundleAnalyzerPlugin] else [])
           \<and> (\<forall>i < length (plugins cfg).
                 is_UglifyJsPlugin (plugins cfg ! i) \<or> is_BundleAnalyzerPlugin (plugins cfg ! i)
                 \<longleftrightarrow> 3 \<le> i)
           \<and> (\<forall>i j. i < length (plugins cfg) \<and> j < length (plugins cfg)
                 \<and> is_UglifyJsPlugin (plugins cfg ! i)
                 \<and> is_BundleAnalyzerPlugin (plugins cfg ! j) \<longrightarrow> i < j)"
proof -
  from module_exports_non_null [OF assms, of NODE_ENV] obtain cfg r where
    c: "module_exports NODE_ENV env = Inr cfg"
    and g: "get_report (default_param env) = Inr r"
    and p: "plugins cfg =
             [EnvironmentPlugin environment_plugin_arg,
              ProvidePlugin provide_plugin_arg,
              LodashModuleReplacementPlugin lodash_plugin_arg]
             @ (if is_production NODE_ENV then [UglifyJsPlugin uglify_plugin_arg] else [])
             @ (if to_boolean r then [BundleAnalyzerPlugin] else [])"
    by blast
  from p have t: "take 3 (plugins cfg) =
                [EnvironmentPlugin environment_plugin_arg,
                 ProvidePlugin provide_plugin_arg,
                 LodashModuleReplacementPlugin lodash_plugin_arg]"
    by simp
  from p have d: "drop 3 (plugins cfg) =
                (if is_production NODE_ENV then [UglifyJsPlugin uglify_plugin_arg] else [])
                @ (if to_boolean r then [BundleAnalyzerPlugin] else [])"
    by simp
  have k: "is_UglifyJsPlugin (plugins cfg ! i) \<or> is_BundleAnalyzerPlugin (plugins cfg ! i)
             \<longleftrightarrow> 3 \<le> i"
    if "i < length (plugins cfg)" for i
    using that p by (auto simp: nth_Cons' split: if_splits)
  have o: "i < j"
    if "i < length (plugins cfg)" "j < length (plugins cfg)"
       "is_UglifyJsPlugin (plugins cfg ! i)" "is_BundleAnalyzerPlugin (plugins cfg ! j)" for i j
    using that p by (auto simp: nth_Cons' split: if_splits)
  from c g t d k o show ?thesis by blast
qed

theorem plugin_order_witness:
  "JObj [(''report'', JNum 1)] \<noteq> JNull
   \<and> (\<exists>cfg. module_exports (Some ''production'') (JObj [(''report'', JNum 1)]) = Inr cfg
         \<and> plugins cfg =
             [EnvironmentPlugin environment_plugin_arg,
              ProvidePlugin provide_plugin_arg,
              LodashModuleReplacementPlugin lodash_plugin_arg,
              UglifyJsPlugin uglify_plugin_arg,
              BundleAnalyzerPlugin])"
proof -
  have n: "JObj [(''report'', JNum 1)] \<noteq> JNull" by simp
  have g: "get_report (default_param (JObj [(''report'', JNum 1)])) = Inr (JNum 1)"
    by (simp add: default_param_def)
  have q: "is_production (Some ''production'')"
    by (simp add: is_production_def PRODUCTION_def)
  from plugin_order [OF n, of "Some ''production''"] obtain cfg r where
    c: "module_exports (Some ''production'') (JObj [(''report'', JNum 1)]) = Inr cfg"
    and r: "get_report (default_param (JObj [(''report'', JNum 1)])) = Inr r"
    and t: "take 3 (plugins cfg) =
                [EnvironmentPlugin environment_plugin_arg,
                 ProvidePlugin provide_plugin_arg,
                 LodashModuleReplacementPlugin lodash_plugin_arg]"
    and d: "drop 3 (plugins cfg) =
                (if is_production (Some ''production'') then [UglifyJsPlugin uglify_plugin_arg] else [])
                @ (if to_boolean r then [BundleAnalyzerPlugin] else [])"
    by blast
  from g r have "r = JNum 1" by simp
  with d q have d': "drop 3 (plugins cfg) = [UglifyJsPlugin uglify_plugin_arg, BundleAnalyzerPlugin]"
    by simp
  have "plugins cfg = take 3 (plugins cfg) @ drop 3 (plugins cfg)"
    by simp
  with t d' have "plugins cfg =
             [EnvironmentPlugin environment_plugin_arg,
              ProvidePlugin provide_plugin_arg,
              LodashModuleReplacementPlugin lodash_plugin_arg,
              UglifyJsPlugin uglify_plugin_arg,
              BundleAnalyzerPlugin]"
    by simp
  with n c show ?thesis by blast
qed

subsection \<open>Source maps\<close>

text \<open>
  C5. The \<open>devtool\<close> of the returned configuration depends on the mode alone:
  \<open>source-map\<close> in production mode and \<open>eval-source-map\<close> in development mode. Any two
  inputs with the same mode give the same \<open>devtool\<close>, whatever \<open>env\<close> is.
\<close>

theorem devtool_by_mode:
  assumes "env \<noteq> JNull"
  shows "\<exists>cfg. module_exports NODE_ENV env = Inr cfg
           \<and> devtool cfg = (if is_production NODE_ENV then ''source-map'' else ''eval-source-map'')
           \<and> (\<forall>NODE_ENV' env' cfg'.
                 module_exports NODE_ENV' env' = Inr cfg'
                 \<and> is_production NODE_ENV' = is_production NODE_ENV
                 \<longrightarrow> devtool cfg' = devtool cfg)"
proof -
  from module_exports_non_null [OF assms, of NODE_ENV] obtain cfg where
    c: "module_exports NODE_ENV env = Inr cfg"
    and d: "devtool cfg = (if is_production NODE_ENV then ''source-map'' else ''eval-source-map'')"
    by blast
  have "devtool cfg' = devtool cfg"
    if m: "module_exports s e = Inr cfg'" and q: "is_production s = is_production NODE_ENV"
    for s e cfg'
  proof -
    from module_exports_report [OF m] obtain r where "get_report (default_param e) = Inr r"
      by blast
    from module_exports_Inr [OF this, of s] m
    have "devtool cfg' = (if is_production s then ''source-map'' else ''eval-source-map'')"
      by auto
    with d q show ?thesis by simp
  qed
  with c d show ?thesis by blast
qed

theorem devtool_by_mode_witness:
  "JObj [] \<noteq> JNull
   \<and> (\<exists>cfg. module_exports (Some ''production'') (JObj []) = Inr cfg
         \<and> devtool cfg = ''source-map'')
   \<and> (\<exists>cfg. module_exports None (JObj []) = Inr cfg
         \<and> devtool cfg = ''eval-source-map'')"
proof -
  have n: "JObj [] \<noteq> JNull" by simp
  have p: "is_production (Some ''production'')" "\<not> is_production None"
    by (simp_all add: is_production_def PRODUCTION_def)
  from devtool_by_mode [OF n, of "Some ''production''"] devtool_by_mode [OF n, of None] p n
  show ?thesis by auto
qed

subsection \<open>The rule set\<close>

text \<open>
  C4. \<open>module.rules\<close> has exactly two rules, the same for every input. At index 0 is the
  lint rule (\<open>eslint-loader\<close>) with \<open>enforce: 'pre'\<close>; it fails the build on lint errors
  (\<open>failOnError\<close>, \<open>emitError\<close>) and ignores lint warnings (\<open>failOnWarning\<close> and
  \<open>emitWarning\<close> are off, \<open>quiet\<close> is on). At index 1 is the transform rule
  (\<open>babel-loader\<close>) without \<open>enforce\<close>, which is webpack's normal stage. Both exclude
  the same pattern, \<open>/node_modules/\<close>.
\<close>

theorem rule_set:
  assumes "env \<noteq> JNull"
  shows "\<exists>cfg. module_exports NODE_ENV env = Inr cfg
           \<and> length (rules (module cfg)) = 2
           \<and> loader (rules (module cfg) ! 0) = ''eslint-loader''
           \<and> enforce (rules (module cfg) ! 0) = Some ''pre''
           \<and> own_property (options (rules (module cfg) ! 0)) ''failOnError'' = Some (JBool True)
           \<and> own_property (options (rules (module cfg) ! 0)) ''emitError'' = Some (JBool True)
           \<and> own_property (options (rules (module cfg) ! 0)) ''failOnWarning'' = Some (JBool False)
           \<and> own_property (options (rules (module cfg) ! 0)) ''emitWarning'' = Some (JBool False)
           \<and> own_property (options (rules (module cfg) ! 0)) ''quiet'' = Some (JBool True)
           \<and> loader (rules (module cfg) ! 1) = ''babel-loader''
           \<and> enforce (rules (module cfg) ! 1) = None
           \<and> exclude (rules (module cfg) ! 0) = JRegExp ''node_modules''
           \<and> exclude (rules (module cfg) ! 1) = exclude (rules (module cfg) ! 0)
           \<and> (\<forall>NODE_ENV' env' cfg'.
                 module_exports NODE_ENV' env' = Inr cfg'
                 \<longrightarrow> rules (module cfg') = rules (module cfg))"
proof -
  from module_exports_non_null [OF assms, of NODE_ENV] obtain cfg where
    c: "module_exports NODE_ENV env = Inr cfg"
    and r: "rules (module cfg) = [eslint_rule, babel_rule]"
    by blast
  have same: "rules (module cfg') = rules (module cfg)"
    if m: "module_exports s e = Inr cfg'" for s e cfg'
  proof -
    from module_exports_report [OF m] obtain v where "get_report (default_param e) = Inr v"
      by blast
    from module_exports_Inr [OF this, of s] m r show ?thesis
      by auto
  qed
  have l: "length (rules (module cfg)) = 2"
    using r by simp
  have e0: "loader (rules (module cfg) ! 0) = ''eslint-loader''"
    "enforce (rules (module cfg) ! 0) = Some ''pre''"
    "own_property (options (rules (module cfg) ! 0)) ''failOnError'' = Some (JBool True)"
    "own_property (options (rules (module cfg) ! 0)) ''emitError'' = Some (JBool True)"
    "own_property (options (rules (module cfg) ! 0)) ''failOnWarning'' = Some (JBool False)"
    "own_property (options (rules (module cfg) ! 0)) ''emitWarning'' = Some (JBool False)"
    "own_property (options (rules (module cfg) ! 0)) ''quiet'' = Some (JBool True)"
    "exclude (rules (module cfg) ! 0) = JRegExp ''node_modules''"
    using r by (simp_all add: eslint_rule_def DEFAULT_EXCLUDE_RX_def)
  have e1: "loader (rules (module cfg) ! 1) = ''babel-loader''"
    "enforce (rules (module cfg) ! 1) = None"
    "exclude (rules (module cfg) ! 1) = exclude (rules (module cfg) ! 0)"
    using r by (simp_all add: eslint_rule_def babel_rule_def)
  from c l e0 e1 same show ?thesis by blast
qed

theorem rule_set_witness:
  "JUndefined \<noteq> JNull
   \<and> (\<exists>cfg. module_exports None JUndefined = Inr cfg
         \<and> map loader (rules (module cfg)) = [''eslint-loader'', ''babel-loader'']
         \<and> map enforce (rules (module cfg)) = [Some ''pre'', None])"
proof -
  have n: "JUndefined \<noteq> JNull" by simp
  from rule_set [OF n, of None] obtain cfg where
    c: "module_exports None JUndefined = Inr cfg"
    and l: "length (rules (module cfg)) = 2"
    and f: "loader (rules (module cfg) ! 0) = ''eslint-loader''"
       "enforce (rules (module cfg) ! 0) = Some ''pre''"
       "loader (rules (module cfg) ! 1) = ''babel-loader''"
       "enforce (rules (module cfg) ! 1) = None"
    by blast
  from l obtain a b where ab: "rules (module cfg) = [a, b]"
    by (auto simp: length_Suc_conv numeral_2_eq_2)
  with f have "map loader (rules (module cfg)) = [''eslint-loader'', ''babel-loader'']"
    "map enforce (rules (module cfg)) = [Some ''pre'', None]"
    by simp_all
  with n c show ?thesis by auto
qed

subsection \<open>Totality\<close>

text \<open>
  C6, as the code has it. The function returns a configuration for every \<open>env\<close> that is
  absent, \<open>undefined\<close> or any value other than \<open>null\<close> (the parameter is documented as
  a non-null object, \<open>{!Object}\<close>), whatever \<open>NODE_ENV\<close> is. For \<open>null\<close> the default
  parameter does not apply and \<open>env.report\<close> throws a TypeError.
\<close>

theorem module_exports_total_non_null:
  "(env \<noteq> JNull \<longrightarrow> (\<exists>cfg. module_exports NODE_ENV env = Inr cfg))
   \<and> (env = JNull \<longrightarrow> module_exports NODE_ENV env = Inl TypeError)"
proof -
  have "\<exists>cfg. module_exports NODE_ENV env = Inr cfg" if "env \<noteq> JNull"
    using module_exports_non_null [OF that, of NODE_ENV] by blast
  then show ?thesis
    using module_exports_null by blast
qed

theorem module_exports_total_non_null_witness:
  "JStr ''report'' \<noteq> JNull
   \<and> (\<exists>cfg. module_exports (Some ''production'') (JStr ''report'') = Inr cfg)"
  using module_exports_total_non_null [of "JStr ''report''" "Some ''production''"] by simp

text \<open>
  C6 as stated fails: with \<open>null\<close> supplied as the override record, no configuration is
  returned.
\<close>

theorem module_exports_null_counterexample:
  "module_exports None JNull = Inl TypeError"
  by (simp add: module_exports_def default_param_def)

subsection \<open>The report flag\<close>

text \<open>
  C7, as the code has it. The analyser is included exactly when \<open>env.report\<close> is truthy:
  for \<open>true\<close>, but also for a non-zero number, a non-empty string or an object. It is
  left out when \<open>env\<close> is absent (the default record has \<open>report: false\<close>), when \<open>env\<close>
  has no \<open>report\<close> property, and when the property is \<open>false\<close>, \<open>undefined\<close>,
  \<open>null\<close>, zero, \<open>NaN\<close> or the empty string.
\<close>

theorem report_truthiness:
  assumes "env \<noteq> JNull"
  shows "\<exists>cfg r. module_exports NODE_ENV env = Inr cfg
           \<and> get_report (default_param env) = Inr r
           \<and> (env = JUndefined \<longrightarrow> r = JBool False)
           \<and> (\<forall>ps. env = JObj ps \<and> map_of ps ''report'' = None \<longrightarrow> r = JUndefined)
           \<and> (\<forall>ps v. env = JObj ps \<and> map_of ps ''report'' = Some v \<longrightarrow> r = v)
           \<and> (list_ex is_BundleAnalyzerPlugin (plugins cfg) \<longleftrightarrow> to_boolean r)
           \<and> (r = JBool True \<longrightarrow> list_ex is_BundleAnalyzerPlugin (plugins cfg))
           \<and> (r \<in> {JBool False, JUndefined, JNull, JNum 0, JNaN, JStr []}
                \<longrightarrow> \<not> list_ex is_BundleAnalyzerPlugin (plugins cfg))"
proof -
  from module_exports_non_null [OF assms, of NODE_ENV] obtain cfg r where
    c: "module_exports NODE_ENV env = Inr cfg"
    and g: "get_report (default_param env) = Inr r"
    and p: "plugins cfg =
             [EnvironmentPlugin environment_plugin_arg,
              ProvidePlugin provide_plugin_arg,
              LodashModuleReplacementPlugin lodash_plugin_arg]
             @ (if is_production NODE_ENV then [UglifyJsPlugin uglify_plugin_arg] else [])
             @ (if to_boolean r then [BundleAnalyzerPlugin] else [])"
    by blast
  from g have r1: "env = JUndefined \<longrightarrow> r = JBool False"
    by (auto simp: default_param_def DEFAULT_ENV_def)
  from g have r2: "\<forall>ps. env = JObj ps \<and> map_of ps ''report'' = None \<longrightarrow> r = JUndefined"
    by (auto simp: default_param_def)
  from g have r3: "\<forall>ps v. env = JObj ps \<and> map_of ps ''report'' = Some v \<longrightarrow> r = v"
    by (auto simp: default_param_def)
  from p have b: "list_ex is_BundleAnalyzerPlugin (plugins cfg) \<longleftrightarrow> to_boolean r"
    by simp
  from b have b1: "r = JBool True \<longrightarrow> list_ex is_BundleAnalyzerPlugin (plugins cfg)"
    by simp
  from b have b2: "r \<in> {JBool False, JUndefined, JNull, JNum 0, JNaN, JStr []}
                \<longrightarrow> \<not> list_ex is_BundleAnalyzerPlugin (plugins cfg)"
    by auto
  from c g r1 r2 r3 b b1 b2 show ?thesis by blast
qed

theorem report_truthiness_witness:
  "JObj [(''report'', JBool True)] \<noteq> JNull
   \<and> JUndefined \<noteq> JNull
   \<and> (\<exists>cfg. module_exports None (JObj [(''report'', JBool True)]) = Inr cfg
         \<and> list_ex is_BundleAnalyzerPlugin (plugins cfg))
   \<and> (\<exists>cfg. module_exports None JUndefined = Inr cfg
         \<and> \<not> list_ex is_BundleAnalyzerPlugin (plugins cfg))"
proof -
  have n': "JUndefined \<noteq> JNull" by simp
  from report_truthiness [OF n', of None] obtain cfg' r' where
    c': "module_exports None JUndefined = Inr cfg'"
    and u': "JUndefined = JUndefined \<longrightarrow> r' = JBool False"
    and f': "r' \<in> {JBool False, JUndefined, JNull, JNum 0, JNaN, JStr []}
                \<longrightarrow> \<not> list_ex is_BundleAnalyzerPlugin (plugins cfg')"
    by blast
  from u' f' have "\<not> list_ex is_BundleAnalyzerPlugin (plugins cfg')" by simp
  with c' have absent: "\<exists>cfg. module_exports None JUndefined = Inr cfg
         \<and> \<not> list_ex is_BundleAnalyzerPlugin (plugins cfg)"
    by blast
  have n: "JObj [(''report'', JBool True)] \<noteq> JNull" by simp
  have m: "map_of [(''report'', JBool True)] ''report'' = Some (JBool True)" by simp
  from report_truthiness [OF n, of None] obtain cfg r where
    c: "module_exports None (JObj [(''report'', JBool True)]) = Inr cfg"
    and v: "\<forall>ps v. JObj [(''report'', JBool True)] = JObj ps \<and> map_of ps ''report'' = Some v
              \<longrightarrow> r = v"
    and t: "r = JBool True \<longrightarrow> list_ex is_BundleAnalyzerPlugin (plugins cfg)"
    by blast
  from v m have "r = JBool True" by blast
  with t c n n' absent show ?thesis by blast
qed

text \<open>
  C7 as stated fails: a report property that is the string \<open>yes\<close>, not the boolean
  \<open>true\<close>, includes the analyser.
\<close>

theorem report_not_strict_counterexample:
  "get_report (default_param (JObj [(''report'', JStr ''yes'')])) = Inr (JStr ''yes'')
   \<and> JStr ''yes'' \<noteq> JBool True
   \<and> map_sum id plugins (module_exports None (JObj [(''report'', JStr ''yes'')])) =
       Inr [EnvironmentPlugin environment_plugin_arg,
            ProvidePlugin provide_plugin_arg,
            LodashModuleReplacementPlugin lodash_plugin_arg,
            BundleAnalyzerPlugin]"
  by (simp add: module_exports_def default_param_def is_production_def)

subsection \<open>The unconditional plugins\<close>

text \<open>
  C8, as the code has it. The environment-variable injection plugin comes first and is
  always constructed with the same two defaults, \<open>DEBUG: false\<close> and
  \<open>NODE_ENV: 'development'\<close> (the values the plugin uses unless the process environment
  defines the variables). The \<open>NODE_ENV\<close> default does not follow the mode: it equals the
  normalised mode string in development mode only.
\<close>

theorem environment_plugin_defaults:
  assumes "env \<noteq> JNull"
  shows "\<exists>cfg. module_exports NODE_ENV env = Inr cfg
           \<and> plugins cfg ! 0 =
               EnvironmentPlugin
                 (JObj [(''DEBUG'', JBool False), (''NODE_ENV'', JStr ''development'')])
           \<and> (\<forall>a. EnvironmentPlugin a \<in> set (plugins cfg) \<longrightarrow>
                 own_property a ''DEBUG'' = Some (JBool False)
                 \<and> own_property a ''NODE_ENV'' = Some (JStr ''development'')
                 \<and> (own_property a ''NODE_ENV'' = Some (JStr (spec_mode_string NODE_ENV))
                      \<longleftrightarrow> \<not> is_production NODE_ENV))"
proof -
  from module_exports_non_null [OF assms, of NODE_ENV] obtain cfg r where
    c: "module_exports NODE_ENV env = Inr cfg"
    and p: "plugins cfg =
             [EnvironmentPlugin environment_plugin_arg,
              ProvidePlugin provide_plugin_arg,
              LodashModuleReplacementPlugin lodash_plugin_arg]
             @ (if is_production NODE_ENV then [UglifyJsPlugin uglify_plugin_arg] else [])
             @ (if to_boolean r then [BundleAnalyzerPlugin] else [])"
    by blast
  have arg: "environment_plugin_arg =
      JObj [(''DEBUG'', JBool False), (''NODE_ENV'', JStr ''development'')]"
    by (simp add: environment_plugin_arg_def DEVELOPMENT_def)
  from p arg have h: "plugins cfg ! 0 =
      EnvironmentPlugin (JObj [(''DEBUG'', JBool False), (''NODE_ENV'', JStr ''development'')])"
    by simp
  have only: "a = environment_plugin_arg" if "EnvironmentPlugin a \<in> set (plugins cfg)" for a
    using that p by (auto split: if_splits)
  have m: "spec_mode_string NODE_ENV = ''development'' \<longleftrightarrow> \<not> is_production NODE_ENV"
    by (simp add: spec_mode_string_def PRODUCTION_def DEVELOPMENT_def)
  have q: "own_property a ''DEBUG'' = Some (JBool False)
           \<and> own_property a ''NODE_ENV'' = Some (JStr ''development'')
           \<and> (own_property a ''NODE_ENV'' = Some (JStr (spec_mode_string NODE_ENV))
                \<longleftrightarrow> \<not> is_production NODE_ENV)"
    if "EnvironmentPlugin a \<in> set (plugins cfg)" for a
  proof -
    from only [OF that] arg
    have a: "a = JObj [(''DEBUG'', JBool False), (''NODE_ENV'', JStr ''development'')]"
      by simp
    have "own_property a ''NODE_ENV'' = Some (JStr ''development'')"
      by (simp add: a)
    moreover have "own_property a ''DEBUG'' = Some (JBool False)"
      by (simp add: a)
    ultimately show ?thesis using m by auto
  qed
  from c h q show ?thesis by blast
qed

theorem environment_plugin_defaults_witness:
  "JUndefined \<noteq> JNull
   \<and> (\<exists>cfg. module_exports (Some ''production'') JUndefined = Inr cfg
         \<and> plugins cfg ! 0 =
             EnvironmentPlugin
               (JObj [(''DEBUG'', JBool False), (''NODE_ENV'', JStr ''development'')]))"
proof -
  have n: "JUndefined \<noteq> JNull" by simp
  from environment_plugin_defaults [OF n, of "Some ''production''"] n show ?thesis
    by blast
qed

text \<open>
  C8 as stated fails: in production mode the plugin still carries \<open>'development'\<close>, which
  is not the normalised mode string \<open>'production'\<close>.
\<close>

theorem environment_plugin_mode_counterexample:
  "map_sum id (take 1 \<circ> plugins) (module_exports (Some ''production'') JUndefined) =
     Inr [EnvironmentPlugin
            (JObj [(''DEBUG'', JBool False), (''NODE_ENV'', JStr ''development'')])]
   \<and> spec_mode_string (Some ''production'') = ''production''
   \<and> JStr ''development'' \<noteq> JStr (spec_mode_string (Some ''production''))"
  by (simp add: module_exports_def default_param_def DEFAULT_ENV_def is_production_def
      PRODUCTION_def DEVELOPMENT_def spec_mode_string_def environment_plugin_arg_def)

text \<open>
  C9. The lodash size-reduction plugin is in the plugin list for every input (at index 2),
  and it is constructed with \<open>paths: true\<close>.
\<close>

theorem lodash_plugin_paths:
  assumes "env \<noteq> JNull"
  shows "\<exists>cfg. module_exports NODE_ENV env = Inr cfg
           \<and> plugins cfg ! 2 = LodashModuleReplacementPlugin (JObj [(''paths'', JBool True)])
           \<and> list_ex is_LodashModuleReplacementPlugin (plugins cfg)
           \<and> (\<forall>a. LodashModuleReplacementPlugin a \<in> set (plugins cfg) \<longrightarrow>
                 own_property a ''paths'' = Some (JBool True))"
proof -
  from module_exports_non_null [OF assms, of NODE_ENV] obtain cfg r where
    c: "module_exports NODE_ENV env = Inr cfg"
    and p: "plugins cfg =
             [EnvironmentPlugin environment_plugin_arg,
              ProvidePlugin provide_plugin_arg,
              LodashModuleReplacementPlugin lodash_plugin_arg]
             @ (if is_production NODE_ENV then [UglifyJsPlugin uglify_plugin_arg] else [])
             @ (if to_boolean r then [BundleAnalyzerPlugin] else [])"
    by blast
  from p have i: "plugins cfg ! 2 = LodashModuleReplacementPlugin (JObj [(''paths'', JBool True)])"
    by (simp add: lodash_plugin_arg_def)
  from p have e: "list_ex is_LodashModuleReplacementPlugin (plugins cfg)"
    by simp
  have o: "own_property a ''paths'' = Some (JBool True)"
    if "LodashModuleReplacementPlugin a \<in> set (plugins cfg)" for a
    using that p by (auto simp: lodash_plugin_arg_def split: if_splits)
  from c i e o show ?thesis by blast
qed

theorem lodash_plugin_paths_witness:
  "JObj [(''report'', JBool True)] \<noteq> JNull
   \<and> (\<exists>cfg. module_exports None (JObj [(''report'', JBool True)]) = Inr cfg
         \<and> plugins cfg ! 2 = LodashModuleReplacementPlugin (JObj [(''paths'', JBool True)]))"
proof -
  have n: "JObj [(''report'', JBool True)] \<noteq> JNull" by simp
  from lodash_plugin_paths [OF n, of None] n show ?thesis
    by blast
qed

text \<open>
  C10. The fetch provisioning plugin is in the plugin list for every input (at index 1).
  Its mapping has exactly two keys, \<open>fetch\<close> and \<open>window.fetch\<close>, and both map to the
  same loader string, the constant \<open>WHATWG_FETCH\<close>.
\<close>

theorem provide_plugin_fetch:
  assumes "env \<noteq> JNull"
  shows "\<exists>cfg ps. module_exports NODE_ENV env = Inr cfg
           \<and> plugins cfg ! 1 = ProvidePlugin (JObj ps)
           \<and> list_ex is_ProvidePlugin (plugins cfg)
           \<and> (\<forall>a. ProvidePlugin a \<in> set (plugins cfg) \<longrightarrow> a = JObj ps)
           \<and> map fst ps = [''fetch'', ''window.fetch'']
           \<and> map snd ps = [JStr WHATWG_FETCH, JStr WHATWG_FETCH]
           \<and> WHATWG_FETCH =
               ''imports-loader?this=>global!exports-loader?global.fetch!whatwg-fetch''"
proof -
  from module_exports_non_null [OF assms, of NODE_ENV] obtain cfg r where
    c: "module_exports NODE_ENV env = Inr cfg"
    and p: "plugins cfg =
             [EnvironmentPlugin environment_plugin_arg,
              ProvidePlugin provide_plugin_arg,
              LodashModuleReplacementPlugin lodash_plugin_arg]
             @ (if is_production NODE_ENV then [UglifyJsPlugin uglify_plugin_arg] else [])
             @ (if to_boolean r then [BundleAnalyzerPlugin] else [])"
    by blast
  let ?ps = "[(''fetch'', JStr WHATWG_FETCH), (''window.fetch'', JStr WHATWG_FETCH)]"
  from p have i: "plugins cfg ! 1 = ProvidePlugin (JObj ?ps)"
    by (simp add: provide_plugin_arg_def)
  from p have e: "list_ex is_ProvidePlugin (plugins cfg)"
    by simp
  have o: "a = JObj ?ps" if "ProvidePlugin a \<in> set (plugins cfg)" for a
    using that p by (auto simp: provide_plugin_arg_def split: if_splits)
  have k: "map fst ?ps = [''fetch'', ''window.fetch'']"
    "map snd ?ps = [JStr WHATWG_FETCH, JStr WHATWG_FETCH]"
    by simp_all
  have w: "WHATWG_FETCH =
      ''imports-loader?this=>global!exports-loader?global.fetch!whatwg-fetch''"
    by (rule WHATWG_FETCH_def)
  from o have o': "\<forall>a. ProvidePlugin a \<in> set (plugins cfg) \<longrightarrow> a = JObj ?ps"
    by simp
  from c i e o' k w have "module_exports NODE_ENV env = Inr cfg
           \<and> plugins cfg ! 1 = ProvidePlugin (JObj ?ps)
           \<and> list_ex is_ProvidePlugin (plugins cfg)
           \<and> (\<forall>a. ProvidePlugin a \<in> set (plugins cfg) \<longrightarrow> a = JObj ?ps)
           \<and> map fst ?ps = [''fetch'', ''window.fetch'']
           \<and> map snd ?ps = [JStr WHATWG_FETCH, JStr WHATWG_FETCH]
           \<and> WHATWG_FETCH =
               ''imports-loader?this=>global!exports-loader?global.fetch!whatwg-fetch''"
    by (intro conjI)
  then show ?thesis
    by - (rule exI, rule exI, assumption)
qed

theorem provide_plugin_fetch_witness:
  "JNum 0 \<noteq> JNull
   \<and> (\<exists>cfg ps. module_exports (Some ''production'') (JNum 0) = Inr cfg
         \<and> plugins cfg ! 1 = ProvidePlugin (JObj ps)
         \<and> map fst ps = [''fetch'', ''window.fetch''])"
proof -
  have n: "JNum 0 \<noteq> JNull" by simp
  from provide_plugin_fetch [OF n, of "Some ''production''"] obtain cfg ps where
    "module_exports (Some ''production'') (JNum 0) = Inr cfg
       \<and> plugins cfg ! 1 = ProvidePlugin (JObj ps)
       \<and> map fst ps = [''fetch'', ''window.fetch'']"
    by auto
  then have "\<exists>cfg ps. module_exports (Some ''production'') (JNum 0) = Inr cfg
         \<and> plugins cfg ! 1 = ProvidePlugin (JObj ps)
         \<and> map fst ps = [''fetch'', ''window.fetch'']"
    by - (rule exI, rule exI, assumption)
  with n show ?thesis by simp
qed

end
